theory Spec2Isabelle
  imports Main
begin

section \<open>Python values and exceptions\<close>

text \<open>
  The controller handles request dictionaries whose values are integers, strings or
  \<^verbatim>\<open>None\<close>.  Exceptions are values.  The modelled code itself can raise the first
  four (a missing dictionary key, an operand of the wrong type, an element missing from
  a list, a subscript out of range); the others come from its collaborators.
\<close>

datatype pyval = PNone | PInt int | PStr string

datatype exn =
    KeyError string
  | TypeError
  | ValueError
  | IndexError
  | PermissionError
  | InsufficientSpace
  | OtherError string

section \<open>\<^verbatim>\<open>system_setup/models/wslconfbase.py\<close>\<close>

text \<open>
  \<^verbatim>\<open>WSLConfigurationBase\<close> is an attrs class with four attributes.  The argument of
  \<^verbatim>\<open>apply_settings\<close> is any object that has these four attributes, which the record
  scheme expresses: it may carry more fields, and they are not read.
\<close>

record 'v WSLConfigurationBase =
  automount_root :: 'v
  automount_options :: 'v
  network_generatehosts :: 'v
  network_generateresolvconf :: 'v

record 'v WSLConfigurationBaseModel =
  wslconfbase_attr :: "'v WSLConfigurationBase option"

definition WSLConfigurationBaseModel_init :: "'v WSLConfigurationBaseModel" where
  "WSLConfigurationBaseModel_init = \<lparr>wslconfbase_attr = None\<rparr>"

definition apply_settings ::
  "'v WSLConfigurationBaseModel \<Rightarrow> ('v, 'more) WSLConfigurationBase_scheme
     \<Rightarrow> 'v WSLConfigurationBaseModel" where
  "apply_settings self result =
     self\<lparr>wslconfbase_attr := Some
       \<lparr>automount_root = automount_root result,
        automount_options = automount_options result,
        network_generatehosts = network_generatehosts result,
        network_generateresolvconf = network_generateresolvconf result\<rparr>\<rparr>"

definition wslconfbase :: "'v WSLConfigurationBaseModel \<Rightarrow> 'v WSLConfigurationBase option" where
  "wslconfbase self = wslconfbase_attr self"

section \<open>Disk cursor of \<^verbatim>\<open>subiquity/controllers/filesystem.py\<close>\<close>

text \<open>
  \<^verbatim>\<open>list.index\<close> gives the first position of an element and raises
  \<^verbatim>\<open>ValueError\<close> when there is none; subscription accepts negative indices and raises
  \<^verbatim>\<open>IndexError\<close> out of range.  Python's \<^verbatim>\<open>%\<close> with a positive right operand is
  the \<open>mod\<close> of \<^typ>\<open>int\<close>; with a zero one it raises, which cannot happen after a
  successful \<^verbatim>\<open>index\<close>.
\<close>

fun list_index :: "'a list \<Rightarrow> 'a \<Rightarrow> exn + int" where
  "list_index [] x = Inl ValueError"
| "list_index (y # ys) x =
     (if y = x then Inr 0
      else case list_index ys x of Inl e \<Rightarrow> Inl e | Inr i \<Rightarrow> Inr (i + 1))"

definition list_getitem :: "'a list \<Rightarrow> int \<Rightarrow> exn + 'a" where
  "list_getitem xs i =
     (let n = int (length xs);
          j = (if i < 0 then i + n else i)
      in if 0 \<le> j \<and> j < n then Inr (xs ! nat j) else Inl IndexError)"

text \<open>
  Both functions return the device name handed to \<^verbatim>\<open>show_disk_information\<close>, or the
  exception that leaves the function before that call.
\<close>

definition show_disk_information_next :: "'a list \<Rightarrow> 'a \<Rightarrow> exn + 'a" where
  "show_disk_information_next available curr_device =
     (case list_index available curr_device of
        Inl e \<Rightarrow> Inl e
      | Inr idx \<Rightarrow>
          (let next_idx = (idx + 1) mod int (length available)
           in list_getitem available next_idx))"

definition show_disk_information_prev :: "'a list \<Rightarrow> 'a \<Rightarrow> exn + 'a" where
  "show_disk_information_prev available curr_device =
     (case list_index available curr_device of
        Inl e \<Rightarrow> Inl e
      | Inr idx \<Rightarrow>
          (let next_idx = (idx - 1) mod int (length available)
           in list_getitem available next_idx))"

section \<open>Partition handler of \<^verbatim>\<open>subiquity/controllers/filesystem.py\<close>\<close>

definition BIOS_GRUB_SIZE_BYTES :: int where
  "BIOS_GRUB_SIZE_BYTES = 2 * 1024 * 1024"

definition UEFI_GRUB_SIZE_BYTES :: int where
  "UEFI_GRUB_SIZE_BYTES = 512 * 1024 * 1024"

text \<open>
  The keyword arguments of one call of \<^verbatim>\<open>add_partition\<close>.  The handler always passes
  \<^verbatim>\<open>partnum\<close>, \<^verbatim>\<open>size\<close> and \<^verbatim>\<open>fstype\<close>; \<^verbatim>\<open>mountpoint\<close> and \<^verbatim>\<open>flag\<close> are
  \<open>None\<close> when the call does not pass the keyword.
\<close>

record partition_kwargs =
  kw_partnum :: pyval
  kw_size :: pyval
  kw_fstype :: pyval
  kw_mountpoint :: "pyval option"
  kw_flag :: "pyval option"

text \<open>
  What the handler reads of the block device: \<^verbatim>\<open>parttype\<close>,
  \<^verbatim>\<open>disk.partitions\<close> (only its length) and \<^verbatim>\<open>freespace\<close> (only for logging).
\<close>

record 'p blockdev =
  parttype :: string
  partitions :: "'p list"
  freespace :: int

text \<open>
  \<^verbatim>\<open>add_partition\<close> is a method of the device object that
  \<^verbatim>\<open>self.model.get_disk\<close> returns.  Its class belongs to the package
  \<^verbatim>\<open>subiquity.models\<close>, not to the controller, so the handler takes the method as a
  parameter: from the device and the keyword arguments it gives the device after the
  call and either the value returned or the exception raised.
\<close>

type_synonym 'p add_partition_fn =
  "'p blockdev \<Rightarrow> partition_kwargs \<Rightarrow> 'p blockdev \<times> (exn + pyval)"

type_synonym request = "string \<rightharpoonup> pyval"

datatype event =
    LogInfo string
  | LogException string exn
  | Call string
  | Signal string "string list"

definition dict_getitem :: "request \<Rightarrow> string \<Rightarrow> exn + pyval" where
  "dict_getitem d k = (case d k of None \<Rightarrow> Inl (KeyError k) | Some v \<Rightarrow> Inr v)"

definition py_sub :: "pyval \<Rightarrow> pyval \<Rightarrow> exn + pyval" where
  "py_sub a b =
     (case a of
        PInt x \<Rightarrow> (case b of PInt y \<Rightarrow> Inr (PInt (x - y)) | _ \<Rightarrow> Inl TypeError)
      | _ \<Rightarrow> Inl TypeError)"

text \<open>
  The state the body of the \<^verbatim>\<open>try\<close> statement works on: the block device, the
  caller's request dictionary (mutated in place by the source, passed on here), and the
  calls of \<^verbatim>\<open>add_partition\<close> made so far, in order.
\<close>

record 'p hstate =
  st_disk :: "'p blockdev"
  st_spec :: request
  st_calls :: "partition_kwargs list"

definition call_add_partition ::
  "'p add_partition_fn \<Rightarrow> 'p hstate \<Rightarrow> partition_kwargs \<Rightarrow> 'p hstate \<times> (exn + pyval)" where
  "call_add_partition add_partition st kw =
     (case add_partition (st_disk st) kw of
        (d, r) \<Rightarrow> (st\<lparr>st_disk := d, st_calls := st_calls st @ [kw]\<rparr>, r))"

definition uefi_boot_kwargs :: partition_kwargs where
  "uefi_boot_kwargs =
     \<lparr>kw_partnum = PInt 1, kw_size = PInt UEFI_GRUB_SIZE_BYTES, kw_fstype = PStr ''fat32'',
      kw_mountpoint = Some (PStr ''/boot/efi''), kw_flag = Some (PStr ''bios_grub'')\<rparr>"

definition bios_boot_kwargs :: partition_kwargs where
  "bios_boot_kwargs =
     \<lparr>kw_partnum = PInt 1, kw_size = PInt BIOS_GRUB_SIZE_BYTES, kw_fstype = PNone,
      kw_mountpoint = None, kw_flag = Some (PStr ''bios_grub'')\<rparr>"

text \<open>
  Lines 136 to 158: the boot partition is added first, then the request is adjusted by
  the value \<^verbatim>\<open>add_partition\<close> returned.  The difference is computed for the debug
  message before the dictionary is updated, with the same operands.
\<close>

definition add_boot_partition ::
  "'p add_partition_fn \<Rightarrow> bool \<Rightarrow> 'p hstate \<Rightarrow> 'p hstate \<times> exn option" where
  "add_boot_partition add_partition is_uefi st =
     (case call_add_partition add_partition st
             (if is_uefi then uefi_boot_kwargs else bios_boot_kwargs) of
        (st1, Inl e) \<Rightarrow> (st1, Some e)
      | (st1, Inr size_added) \<Rightarrow>
          (case dict_getitem (st_spec st1) ''bytes'' of
             Inl e \<Rightarrow> (st1, Some e)
           | Inr b \<Rightarrow>
               (case py_sub b size_added of
                  Inl e \<Rightarrow> (st1, Some e)
                | Inr b' \<Rightarrow>
                    (st1\<lparr>st_spec := (st_spec st1)(''bytes'' \<mapsto> b', ''partnum'' \<mapsto> PInt 2)\<rparr>,
                     None))))"

text \<open>
  Lines 160 to 168: the keyword arguments for the requested partition.  The keys are
  read in the order the source evaluates them (\<^verbatim>\<open>fstype\<close> for the test, then
  \<^verbatim>\<open>partnum\<close>, \<^verbatim>\<open>bytes\<close>, \<^verbatim>\<open>fstype\<close> again and, outside the swap branch,
  \<^verbatim>\<open>mountpoint\<close>), so the first missing one is the \<^verbatim>\<open>KeyError\<close> raised.
\<close>

definition requested_kwargs :: "request \<Rightarrow> exn + partition_kwargs" where
  "requested_kwargs spec =
     (case dict_getitem spec ''fstype'' of
        Inl e \<Rightarrow> Inl e
      | Inr t \<Rightarrow>
          (if t = PStr ''swap'' then
             (case dict_getitem spec ''partnum'' of
                Inl e \<Rightarrow> Inl e
              | Inr n \<Rightarrow>
                  (case dict_getitem spec ''bytes'' of
                     Inl e \<Rightarrow> Inl e
                   | Inr b \<Rightarrow>
                       Inr \<lparr>kw_partnum = n, kw_size = b, kw_fstype = t,
                            kw_mountpoint = None, kw_flag = None\<rparr>))
           else
             (case dict_getitem spec ''partnum'' of
                Inl e \<Rightarrow> Inl e
              | Inr n \<Rightarrow>
                  (case dict_getitem spec ''bytes'' of
                     Inl e \<Rightarrow> Inl e
                   | Inr b \<Rightarrow>
                       (case dict_getitem spec ''mountpoint'' of
                          Inl e \<Rightarrow> Inl e
                        | Inr m \<Rightarrow>
                            Inr \<lparr>kw_partnum = n, kw_size = b, kw_fstype = t,
                                 kw_mountpoint = Some m, kw_flag = None\<rparr>)))))"

definition add_requested_partition ::
  "'p add_partition_fn \<Rightarrow> 'p hstate \<Rightarrow> 'p hstate \<times> exn option" where
  "add_requested_partition add_partition st =
     (case requested_kwargs (st_spec st) of
        Inl e \<Rightarrow> (st, Some e)
      | Inr kw \<Rightarrow>
          (case call_add_partition add_partition st kw of
             (st1, Inl e) \<Rightarrow> (st1, Some e)
           | (st1, Inr _) \<Rightarrow> (st1, None)))"

text \<open>
  The outcome of the handler: the device and the request dictionary as the caller finds
  them afterwards, the calls of \<^verbatim>\<open>add_partition\<close>, the exception the \<^verbatim>\<open>except\<close>
  clause caught (if any), and the info and exception log entries and signals, in order.
  Debug log entries are left out; \<^verbatim>\<open>get_fs_table\<close>, called for one of them on line
  177, is taken to read the device without changing it.
\<close>

record 'p houtcome =
  res_disk :: "'p blockdev"
  res_spec :: request
  res_calls :: "partition_kwargs list"
  res_caught :: "exn option"
  res_events :: "event list"

text \<open>
  \<^verbatim>\<open>add_disk_partition_handler\<close>.  Its inputs beyond the source's \<^verbatim>\<open>disk\<close> and
  \<^verbatim>\<open>spec\<close> are what it reads from its surroundings: the result of
  \<^verbatim>\<open>self.model.bootable()\<close>, the result of \<^verbatim>\<open>self.is_uefi()\<close>, and the device
  \<^verbatim>\<open>self.model.get_disk(disk)\<close>.  \<open>try_body\<close> is the body of the \<^verbatim>\<open>try\<close>
  statement (lines 131 to 168): it gives the state where it ended and the exception
  that ended it, if any.
\<close>

definition try_body ::
  "'p add_partition_fn \<Rightarrow> bool \<Rightarrow> bool \<Rightarrow> 'p blockdev \<Rightarrow> request \<Rightarrow> 'p hstate \<times> exn option" where
  "try_body add_partition system_bootable is_uefi current_disk spec =
     (let st0 = \<lparr>st_disk = current_disk, st_spec = spec, st_calls = []\<rparr>
      in case (if system_bootable = False \<and> parttype current_disk = ''gpt'' \<and>
                  length (partitions current_disk) = 0
               then add_boot_partition add_partition is_uefi st0
               else (st0, None)) of
           (st1, Some e) \<Rightarrow> (st1, Some e)
         | (st1, None) \<Rightarrow> add_requested_partition add_partition st1)"

text \<open>
  The \<^verbatim>\<open>except\<close> clause (lines 169 to 173) logs the exception and emits
  \<^verbatim>\<open>filesystem:add-disk-partition\<close>.  It has no \<^verbatim>\<open>return\<close>: lines 175 to 178
  follow on both paths.
\<close>

definition add_disk_partition_handler ::
  "'p add_partition_fn \<Rightarrow> bool \<Rightarrow> bool \<Rightarrow> string \<Rightarrow> 'p blockdev \<Rightarrow> request \<Rightarrow> 'p houtcome" where
  "add_disk_partition_handler add_partition system_bootable is_uefi disk current_disk spec =
     (case try_body add_partition system_bootable is_uefi current_disk spec of
        (st2, caught) \<Rightarrow>
          \<lparr>res_disk = st_disk st2, res_spec = st_spec st2, res_calls = st_calls st2,
           res_caught = caught,
           res_events =
             (case caught of
                Some e \<Rightarrow> [LogException ''Failed to add disk partition'' e,
                           Signal ''filesystem:add-disk-partition'' [disk]]
              | None \<Rightarrow> []) @
             [LogInfo ''Successfully added partition'',
              Signal ''filesystem:show-disk-partition'' [disk]]\<rparr>)"

text \<open>
  Modelled from the spec: the method \<^verbatim>\<open>add_partition\<close> of the device object, whose
  source is in the package \<^verbatim>\<open>subiquity.models\<close> and not in the controller.  The
  spec's disk holds an ordered sequence of partitions (number, size, filesystem type,
  optional mount point, optional boot role) and a free-space count; a size that is
  negative or larger than the free space is refused as insufficient space; otherwise
  the partition is appended, the free space shrinks by its size, and the size is what
  the boot-partition step subtracts from the request.
\<close>

definition add_partition_model :: "partition_kwargs add_partition_fn" where
  "add_partition_model d kw =
     (case kw_size kw of
        PInt n \<Rightarrow>
          (if n < 0 \<or> freespace d < n then (d, Inl InsufficientSpace)
           else (d\<lparr>partitions := partitions d @ [kw], freespace := freespace d - n\<rparr>,
                 Inr (PInt n)))
      | _ \<Rightarrow> (d, Inl TypeError))"

text \<open>
  A second instance of the parameter.  The comment on lines 152 and 153 speaks of
  \<^verbatim>\<open>the offset and bios/grub partition\<close>: what \<^verbatim>\<open>add_partition\<close> returns may be more
  than the size it was asked to add.  This device counts a fixed alignment offset with
  every partition and reports the size together with the offset.
\<close>

definition add_partition_reporting_offset :: "int \<Rightarrow> partition_kwargs add_partition_fn" where
  "add_partition_reporting_offset offset d kw =
     (case kw_size kw of
        PInt n \<Rightarrow>
          (if n < 0 \<or> freespace d < n + offset then (d, Inl InsufficientSpace)
           else (d\<lparr>partitions := partitions d @ [kw], freespace := freespace d - (n + offset)\<rparr>,
                 Inr (PInt (n + offset))))
      | _ \<Rightarrow> (d, Inl TypeError))"

section \<open>Persisting the action lists\<close>

text \<open>
  \<^verbatim>\<open>filesystem_handler\<close>.  The two writers and \<^verbatim>\<open>preserve_action\<close> come from other
  modules and are parameters: a writer gives the exception it raised, if any.  The
  result is the list of events and either the exception that left the handler or the
  normal return.  \<^verbatim>\<open>actions\<close> defaults to \<^verbatim>\<open>None\<close>, over which the list comprehension
  cannot iterate.
\<close>

fun map_raising :: "('a \<Rightarrow> exn + 'b) \<Rightarrow> 'a list \<Rightarrow> exn + 'b list" where
  "map_raising f [] = Inr []"
| "map_raising f (x # xs) =
     (case f x of
        Inl e \<Rightarrow> Inl e
      | Inr y \<Rightarrow> (case map_raising f xs of Inl e \<Rightarrow> Inl e | Inr ys \<Rightarrow> Inr (y # ys)))"

definition filesystem_handler ::
  "('a list option \<Rightarrow> exn option) \<Rightarrow> ('b list \<Rightarrow> exn option) \<Rightarrow> ('a \<Rightarrow> exn + 'b) \<Rightarrow>
     bool \<Rightarrow> 'a list option \<Rightarrow> event list \<times> (exn + unit)" where
  "filesystem_handler curtin_write_storage_actions curtin_write_preserved_actions
       preserve_action reset actions =
     (let ev0 = (if actions = None \<and> reset = False then [Signal ''network:show'' []] else []) @
                [LogInfo ''Rendering curtin config from user choices'',
                 Call ''curtin_write_storage_actions'']
      in case curtin_write_storage_actions actions of
           Some e \<Rightarrow>
             (if e = PermissionError then
                (ev0 @ [LogException ''Failed to write storage actions'' e,
                        Signal ''filesystem:error'' [''curtin_write_storage_actions'']],
                 Inr ())
              else (ev0, Inl e))
         | None \<Rightarrow>
             (let ev1 = ev0 @ [LogInfo ''Rendering preserved config for post install'']
              in case actions of
                   None \<Rightarrow> (ev1, Inl TypeError)
                 | Some as \<Rightarrow>
                     (case map_raising preserve_action as of
                        Inl e \<Rightarrow> (ev1, Inl e)
                      | Inr preserved_actions \<Rightarrow>
                          (let ev2 = ev1 @ [Call ''curtin_write_preserved_actions'']
                           in case curtin_write_preserved_actions preserved_actions of
                                Some e \<Rightarrow>
                                  (if e = PermissionError then
                                     (ev2 @ [LogException ''Failed to write preserved actions'' e,
                                             Signal ''filesystem:error''
                                               [''curtin_write_preserved_actions'']],
                                      Inr ())
                                   else (ev2, Inl e))
                              | None \<Rightarrow> (ev2 @ [Signal ''identity:show'' []], Inr ())))))"

text \<open>The end-to-end example of the spec: an empty GPT disk and a 10 GiB root partition.\<close>

definition example_disk :: "int \<Rightarrow> partition_kwargs blockdev" where
  "example_disk free = \<lparr>parttype = ''gpt'', partitions = [], freespace = free\<rparr>"

definition example_request :: "int \<Rightarrow> string \<Rightarrow> string \<Rightarrow> request" where
  "example_request n t m =
     [''partnum'' \<mapsto> PInt 1, ''bytes'' \<mapsto> PInt n, ''fstype'' \<mapsto> PStr t,
      ''mountpoint'' \<mapsto> PStr m]"

section \<open>Properties of the WSL model\<close>

text \<open>
  Claim C10.  A freshly constructed model has no configuration; after
  \<^verbatim>\<open>apply_settings(result)\<close> the property \<^verbatim>\<open>wslconfbase\<close> is the record of the four
  attributes of \<^verbatim>\<open>result\<close>, and the model after the call does not depend on the
  model before it.
\<close>

theorem wslconfbase_init_and_apply:
  "wslconfbase WSLConfigurationBaseModel_init = None \<and>
   wslconfbase (apply_settings self result) = Some
     \<lparr>automount_root = automount_root result,
      automount_options = automount_options result,
      network_generatehosts = network_generatehosts result,
      network_generateresolvconf = network_generateresolvconf result\<rparr> \<and>
   apply_settings self result = apply_settings self' result"
  by (simp add: wslconfbase_def WSLConfigurationBaseModel_init_def apply_settings_def)

section \<open>Properties of the disk cursor\<close>

lemma list_index_absent: "x \<notin> set xs \<Longrightarrow> list_index xs x = Inl ValueError"
  by (induction xs) auto

lemma list_index_present:
  "x \<in> set xs \<Longrightarrow>
     \<exists>i. list_index xs x = Inr (int i) \<and> i < length xs \<and> xs ! i = x \<and> (\<forall>j<i. xs ! j \<noteq> x)"
proof (induction xs)
  case Nil
  then show ?case by simp
next
  case (Cons y ys)
  show ?case
  proof (cases "y = x")
    case True
    then show ?thesis by (intro exI [of _ 0]) simp
  next
    case False
    with Cons.prems have "x \<in> set ys" by simp
    from Cons.IH [OF this] obtain i where
      i: "list_index ys x = Inr (int i)" "i < length ys" "ys ! i = x" "\<forall>j<i. ys ! j \<noteq> x"
      by blast
    have "\<forall>j<Suc i. (y # ys) ! j \<noteq> x"
      using False i(4) by (auto simp: nth_Cons split: nat.splits)
    with False i show ?thesis
      by (intro exI [of _ "Suc i"]) (simp add: add.commute)
  qed
qed

lemma list_getitem_in_range:
  "0 \<le> k \<Longrightarrow> k < int (length xs) \<Longrightarrow> list_getitem xs k = Inr (xs ! nat k)"
  by (simp add: list_getitem_def Let_def)

text \<open>
  Claim C7.  With \<open>i\<close> the first position of the current identifier in a sequence of
  length \<open>n\<close>, the next cursor yields the element at \<open>(i + 1) mod n\<close> and the previous
  one the element at \<open>(i - 1 + n) mod n\<close>; when the identifier is absent both fail with
  the not-found error of \<^verbatim>\<open>list.index\<close>.
\<close>

theorem disk_cursor_wraps:
  "(current \<in> set available \<longrightarrow>
      (\<exists>i. i < length available \<and> available ! i = current \<and> (\<forall>j<i. available ! j \<noteq> current) \<and>
           show_disk_information_next available current =
             Inr (available ! ((i + 1) mod length available)) \<and>
           show_disk_information_prev available current =
             Inr (available ! nat ((int i - 1 + int (length available))
                                     mod int (length available))))) \<and>
   (current \<notin> set available \<longrightarrow>
      show_disk_information_next available current = Inl ValueError \<and>
      show_disk_information_prev available current = Inl ValueError)"
proof (intro conjI impI)
  assume "current \<in> set available"
  from list_index_present [OF this] obtain i where
    i: "list_index available current = Inr (int i)" "i < length available"
       "available ! i = current" "\<forall>j<i. available ! j \<noteq> current"
    by blast
  let ?n = "int (length available)"
  have pos: "0 < ?n" using i(2) by (cases available) simp_all
  have nx: "show_disk_information_next available current =
              Inr (available ! nat ((int i + 1) mod ?n))"
    using pos by (simp add: show_disk_information_next_def i(1) list_getitem_in_range)
  have "nat ((int i + 1) mod ?n) = (i + 1) mod length available"
    by (simp add: nat_mod_distrib nat_add_distrib)
  with nx have nx': "show_disk_information_next available current =
              Inr (available ! ((i + 1) mod length available))"
    by simp
  have "(int i - 1) mod ?n = (int i - 1 + ?n) mod ?n" by simp
  then have pv: "show_disk_information_prev available current =
              Inr (available ! nat ((int i - 1 + ?n) mod ?n))"
    using pos by (simp add: show_disk_information_prev_def i(1) list_getitem_in_range)
  from i(2,3,4) nx' pv
  show "\<exists>i. i < length available \<and> available ! i = current \<and> (\<forall>j<i. available ! j \<noteq> current) \<and>
           show_disk_information_next available current =
             Inr (available ! ((i + 1) mod length available)) \<and>
           show_disk_information_prev available current =
             Inr (available ! nat ((int i - 1 + int (length available))
                                     mod int (length available)))"
    by blast
next
  assume "current \<notin> set available"
  then show "show_disk_information_next available current = Inl ValueError"
    by (simp add: show_disk_information_next_def list_index_absent)
next
  assume "current \<notin> set available"
  then show "show_disk_information_prev available current = Inl ValueError"
    by (simp add: show_disk_information_prev_def list_index_absent)
qed

theorem disk_cursor_wraps_witness:
  "''sdc'' \<in> set [''sda'', ''sdb'', ''sdc''] \<and>
   show_disk_information_next [''sda'', ''sdb'', ''sdc''] ''sdc'' = Inr ''sda'' \<and>
   show_disk_information_prev [''sda'', ''sdb'', ''sdc''] ''sdc'' = Inr ''sdb'' \<and>
   ''sdx'' \<notin> set [''sda'', ''sdb'', ''sdc''] \<and>
   show_disk_information_next [''sda'', ''sdb'', ''sdc''] ''sdx'' = Inl ValueError \<and>
   show_disk_information_prev [''sda'', ''sdb'', ''sdc''] ''sdx'' = Inl ValueError"
  using disk_cursor_wraps [of "''sdc''" "[''sda'', ''sdb'', ''sdc'']"]
        disk_cursor_wraps [of "''sdx''" "[''sda'', ''sdb'', ''sdc'']"]
  by (simp add: show_disk_information_next_def show_disk_information_prev_def list_getitem_def)

section \<open>Properties of the partition handler\<close>

lemmas handler_defs =
  add_disk_partition_handler_def try_body_def add_boot_partition_def
  add_requested_partition_def call_add_partition_def requested_kwargs_def
  dict_getitem_def py_sub_def

lemmas example_defs =
  example_disk_def example_request_def add_partition_model_def
  uefi_boot_kwargs_def bios_boot_kwargs_def UEFI_GRUB_SIZE_BYTES_def BIOS_GRUB_SIZE_BYTES_def

subsection \<open>How the steps of the handler compose\<close>

lemma try_body_cases:
  "try_body add_partition system_bootable is_uefi d spec =
     (if \<not> system_bootable \<and> parttype d = ''gpt'' \<and> partitions d = [] then
        (case add_boot_partition add_partition is_uefi
                \<lparr>st_disk = d, st_spec = spec, st_calls = []\<rparr> of
           (st1, Some e) \<Rightarrow> (st1, Some e)
         | (st1, None) \<Rightarrow> add_requested_partition add_partition st1)
      else add_requested_partition add_partition \<lparr>st_disk = d, st_spec = spec, st_calls = []\<rparr>)"
  by (simp add: try_body_def Let_def)

lemma handler_fields:
  assumes "try_body add_partition system_bootable is_uefi d spec = (st2, caught)"
  shows "res_disk (add_disk_partition_handler add_partition system_bootable is_uefi disk d spec)
           = st_disk st2"
    and "res_spec (add_disk_partition_handler add_partition system_bootable is_uefi disk d spec)
           = st_spec st2"
    and "res_calls (add_disk_partition_handler add_partition system_bootable is_uefi disk d spec)
           = st_calls st2"
    and "res_caught (add_disk_partition_handler add_partition system_bootable is_uefi disk d spec)
           = caught"
    and "res_events (add_disk_partition_handler add_partition system_bootable is_uefi disk d spec)
           = (case caught of
                Some e \<Rightarrow> [LogException ''Failed to add disk partition'' e,
                           Signal ''filesystem:add-disk-partition'' [disk]]
              | None \<Rightarrow> []) @
             [LogInfo ''Successfully added partition'',
              Signal ''filesystem:show-disk-partition'' [disk]]"
  using assms by (simp_all add: add_disk_partition_handler_def)

lemma boot_kwargs_flag:
  "kw_flag (if is_uefi then uefi_boot_kwargs else bios_boot_kwargs) = Some (PStr ''bios_grub'')"
  by (simp add: uefi_boot_kwargs_def bios_boot_kwargs_def)

lemma add_boot_partition_shape:
  assumes "add_boot_partition add_partition is_uefi st = (st1, r)"
  shows "st_calls st1 = st_calls st @ [if is_uefi then uefi_boot_kwargs else bios_boot_kwargs] \<and>
         st_spec st1 ''fstype'' = st_spec st ''fstype''"
  using assms
  by (auto simp add: add_boot_partition_def call_add_partition_def
        split: prod.splits sum.splits)

lemma add_boot_partition_returns:
  assumes "add_partition (st_disk st) (if is_uefi then uefi_boot_kwargs else bios_boot_kwargs) =
             (d', Inr (PInt sz))"
      and "st_spec st ''bytes'' = Some (PInt b)"
  shows "add_boot_partition add_partition is_uefi st =
           (\<lparr>st_disk = d',
             st_spec = (st_spec st)(''bytes'' \<mapsto> PInt (b - sz), ''partnum'' \<mapsto> PInt 2),
             st_calls = st_calls st @ [if is_uefi then uefi_boot_kwargs else bios_boot_kwargs]\<rparr>,
            None)"
  using assms
  by (simp add: add_boot_partition_def call_add_partition_def dict_getitem_def py_sub_def)

lemma add_requested_partition_shape:
  assumes "add_requested_partition add_partition st = (st1, r)"
  shows "st_spec st1 = st_spec st \<and>
         ((\<exists>e. requested_kwargs (st_spec st) = Inl e \<and> r = Some e \<and> st_calls st1 = st_calls st) \<or>
          (\<exists>kw. requested_kwargs (st_spec st) = Inr kw \<and> st_calls st1 = st_calls st @ [kw]))"
  using assms
  by (auto simp add: add_requested_partition_def call_add_partition_def
        split: prod.splits sum.splits)

lemma requested_kwargs_reads:
  assumes "requested_kwargs spec = Inr kw"
  shows "spec ''partnum'' = Some (kw_partnum kw) \<and> spec ''bytes'' = Some (kw_size kw) \<and>
         spec ''fstype'' = Some (kw_fstype kw) \<and> kw_flag kw = None \<and>
         (if kw_fstype kw = PStr ''swap'' then kw_mountpoint kw = None
          else kw_mountpoint kw \<noteq> None \<and> spec ''mountpoint'' = kw_mountpoint kw)"
  using assms
  by (auto simp add: requested_kwargs_def dict_getitem_def split: option.splits if_splits)

lemma requested_kwargs_present:
  assumes "spec ''partnum'' = Some n" "spec ''bytes'' = Some b" "spec ''fstype'' = Some t"
      and "t = PStr ''swap'' \<or> spec ''mountpoint'' = Some m"
  shows "requested_kwargs spec =
           Inr \<lparr>kw_partnum = n, kw_size = b, kw_fstype = t,
                kw_mountpoint = (if t = PStr ''swap'' then None else Some m), kw_flag = None\<rparr>"
  using assms by (auto simp add: requested_kwargs_def dict_getitem_def)

lemma add_requested_partition_calls:
  assumes "requested_kwargs (st_spec st) = Inr kw"
  shows "st_calls (fst (add_requested_partition add_partition st)) = st_calls st @ [kw]"
  using assms
  by (simp add: add_requested_partition_def call_add_partition_def
        split: prod.splits sum.splits)

lemma boot_then_requested_calls:
  assumes inj: "\<not> system_bootable" "parttype d = ''gpt''" "partitions d = []"
      and ap: "add_partition d (if is_uefi then uefi_boot_kwargs else bios_boot_kwargs) =
                 (d', Inr (PInt sz))"
      and keys: "spec ''bytes'' = Some (PInt b)" "spec ''fstype'' = Some t"
                "t = PStr ''swap'' \<or> spec ''mountpoint'' = Some m"
  shows "res_calls (add_disk_partition_handler add_partition system_bootable is_uefi disk d spec) =
     [if is_uefi then uefi_boot_kwargs else bios_boot_kwargs,
      \<lparr>kw_partnum = PInt 2, kw_size = PInt (b - sz), kw_fstype = t,
       kw_mountpoint = (if t = PStr ''swap'' then None else Some m), kw_flag = None\<rparr>]"
proof -
  let ?st0 = "\<lparr>st_disk = d, st_spec = spec, st_calls = []\<rparr>"
  let ?boot = "if is_uefi then uefi_boot_kwargs else bios_boot_kwargs"
  let ?st1 = "\<lparr>st_disk = d',
               st_spec = spec(''bytes'' \<mapsto> PInt (b - sz), ''partnum'' \<mapsto> PInt 2),
               st_calls = [?boot]\<rparr>"
  let ?kw = "\<lparr>kw_partnum = PInt 2, kw_size = PInt (b - sz), kw_fstype = t,
       kw_mountpoint = (if t = PStr ''swap'' then None else Some m), kw_flag = None\<rparr>"
  have boot: "add_boot_partition add_partition is_uefi ?st0 = (?st1, None)"
    using add_boot_partition_returns [of add_partition ?st0 is_uefi d' sz b] ap keys(1)
    by simp
  have req: "requested_kwargs (st_spec ?st1) = Inr ?kw"
    using keys(2,3) by (intro requested_kwargs_present) auto
  have tb: "try_body add_partition system_bootable is_uefi d spec =
              add_requested_partition add_partition ?st1"
    using inj boot by (simp add: try_body_cases)
  obtain st2 caught where r: "add_requested_partition add_partition ?st1 = (st2, caught)"
    by (cases "add_requested_partition add_partition ?st1") auto
  from add_requested_partition_calls [OF req, of add_partition] r
  have "st_calls st2 = [?boot, ?kw]" by simp
  with handler_fields(3) [of add_partition system_bootable is_uefi d spec st2 caught disk] tb r
  show ?thesis by simp
qed


lemma boot_call_first:
  assumes "\<not> system_bootable" "parttype d = ''gpt''" "partitions d = []"
  shows "take 1 (res_calls
           (add_disk_partition_handler add_partition system_bootable is_uefi disk d spec)) =
         [if is_uefi then uefi_boot_kwargs else bios_boot_kwargs]"
proof -
  let ?st0 = "\<lparr>st_disk = d, st_spec = spec, st_calls = []\<rparr>"
  let ?boot = "if is_uefi then uefi_boot_kwargs else bios_boot_kwargs"
  obtain st1 r1 where b: "add_boot_partition add_partition is_uefi ?st0 = (st1, r1)"
    by (cases "add_boot_partition add_partition is_uefi ?st0") auto
  from add_boot_partition_shape [OF b] have calls1: "st_calls st1 = [?boot]" by simp
  obtain st2 caught where
    tb: "try_body add_partition system_bootable is_uefi d spec = (st2, caught)"
    by (cases "try_body add_partition system_bootable is_uefi d spec") auto
  from tb assms b have tb': "(case r1 of Some e \<Rightarrow> (st1, Some e)
       | None \<Rightarrow> add_requested_partition add_partition st1) = (st2, caught)"
    by (simp add: try_body_cases)
  have "take 1 (st_calls st2) = [?boot]"
  proof (cases r1)
    case (Some e)
    with tb' have "st2 = st1" by simp
    with calls1 show ?thesis by simp
  next
    case None
    with tb' have r: "add_requested_partition add_partition st1 = (st2, caught)" by simp
    from add_requested_partition_shape [OF r]
    have "st_calls st2 = st_calls st1 \<or> (\<exists>kw. st_calls st2 = st_calls st1 @ [kw])"
      by auto
    then show ?thesis
    proof
      assume "st_calls st2 = st_calls st1"
      with calls1 show ?thesis by simp
    next
      assume "\<exists>kw. st_calls st2 = st_calls st1 @ [kw]"
      then obtain kw where "st_calls st2 = st_calls st1 @ [kw]" ..
      with calls1 show ?thesis by simp
    qed
  qed
  then show ?thesis by (simp only: handler_fields(3) [OF tb, of disk])
qed

subsection \<open>The boot partition comes first\<close>

text \<open>
  Claim C1, as the claim has it, fails on the boot role: in UEFI mode the first call of
  \<^verbatim>\<open>add_partition\<close> passes the flag \<^verbatim>\<open>bios_grub\<close>, not a role \<^verbatim>\<open>efi\<close> (the
  input is the spec's end-to-end example).  It fails on the size as well when
  \<^verbatim>\<open>add_partition\<close> returns more than it was asked to add: with an offset of 1 MiB
  the second call asks for the requested bytes less 513 MiB.
\<close>

theorem uefi_boot_role_counterexample:
  "res_calls (add_disk_partition_handler add_partition_model False True ''sda''
       (example_disk (100 * 1024 * 1024 * 1024))
       (example_request (10 * 1024 * 1024 * 1024) ''ext4'' ''/'')) ! 0 =
     \<lparr>kw_partnum = PInt 1, kw_size = PInt (512 * 1024 * 1024), kw_fstype = PStr ''fat32'',
      kw_mountpoint = Some (PStr ''/boot/efi''), kw_flag = Some (PStr ''bios_grub'')\<rparr> \<and>
   kw_flag (res_calls (add_disk_partition_handler add_partition_model False True ''sda''
       (example_disk (100 * 1024 * 1024 * 1024))
       (example_request (10 * 1024 * 1024 * 1024) ''ext4'' ''/'')) ! 0) \<noteq> Some (PStr ''efi'') \<and>
   kw_size (res_calls (add_disk_partition_handler
       (add_partition_reporting_offset (1024 * 1024)) False True ''sda''
       (example_disk (100 * 1024 * 1024 * 1024))
       (example_request (10 * 1024 * 1024 * 1024) ''ext4'' ''/'')) ! 1) = PInt 10199498752 \<and>
   kw_size (res_calls (add_disk_partition_handler
       (add_partition_reporting_offset (1024 * 1024)) False True ''sda''
       (example_disk (100 * 1024 * 1024 * 1024))
       (example_request (10 * 1024 * 1024 * 1024) ''ext4'' ''/'')) ! 1) \<noteq>
     PInt (10 * 1024 * 1024 * 1024 - 512 * 1024 * 1024)"
  by (simp add: handler_defs example_defs add_partition_reporting_offset_def)

text \<open>
  Claim C1, amended.  On a GPT disk without partitions, the system not yet bootable and
  the firmware UEFI, the first call of \<^verbatim>\<open>add_partition\<close> asks for partition 1 of
  512 MiB, fat32, mounted at \<^verbatim>\<open>/boot/efi\<close> and flagged \<^verbatim>\<open>bios_grub\<close>.  When that
  call returns a size and the request holds \<^verbatim>\<open>bytes\<close>, \<^verbatim>\<open>fstype\<close> and, unless
  swap, \<^verbatim>\<open>mountpoint\<close>, the second call asks for the requested partition as number 2
  with the requested bytes less the size returned: less 512 MiB when
  \<^verbatim>\<open>add_partition\<close> returns the size it was asked to add.
\<close>

theorem uefi_boot_partition_first:
  assumes "\<not> system_bootable" "parttype d = ''gpt''" "partitions d = []" "is_uefi"
  shows
   "take 1 (res_calls
       (add_disk_partition_handler add_partition system_bootable is_uefi disk d spec)) =
      [\<lparr>kw_partnum = PInt 1, kw_size = PInt (512 * 1024 * 1024), kw_fstype = PStr ''fat32'',
        kw_mountpoint = Some (PStr ''/boot/efi''), kw_flag = Some (PStr ''bios_grub'')\<rparr>] \<and>
    (add_partition d uefi_boot_kwargs = (d', Inr (PInt sz)) \<and>
     spec ''bytes'' = Some (PInt b) \<and> spec ''fstype'' = Some t \<and>
     (t = PStr ''swap'' \<or> spec ''mountpoint'' = Some m) \<longrightarrow>
       res_calls (add_disk_partition_handler add_partition system_bootable is_uefi disk d spec) =
         [\<lparr>kw_partnum = PInt 1, kw_size = PInt (512 * 1024 * 1024), kw_fstype = PStr ''fat32'',
           kw_mountpoint = Some (PStr ''/boot/efi''), kw_flag = Some (PStr ''bios_grub'')\<rparr>,
          \<lparr>kw_partnum = PInt 2, kw_size = PInt (b - sz), kw_fstype = t,
           kw_mountpoint = (if t = PStr ''swap'' then None else Some m), kw_flag = None\<rparr>])"
proof (rule conjI)
  from boot_call_first [OF assms(1-3), of add_partition is_uefi disk spec] assms(4)
  show "take 1 (res_calls
       (add_disk_partition_handler add_partition system_bootable is_uefi disk d spec)) =
      [\<lparr>kw_partnum = PInt 1, kw_size = PInt (512 * 1024 * 1024), kw_fstype = PStr ''fat32'',
        kw_mountpoint = Some (PStr ''/boot/efi''), kw_flag = Some (PStr ''bios_grub'')\<rparr>]"
    by (simp add: uefi_boot_kwargs_def UEFI_GRUB_SIZE_BYTES_def)
next
  show "add_partition d uefi_boot_kwargs = (d', Inr (PInt sz)) \<and>
     spec ''bytes'' = Some (PInt b) \<and> spec ''fstype'' = Some t \<and>
     (t = PStr ''swap'' \<or> spec ''mountpoint'' = Some m) \<longrightarrow>
       res_calls (add_disk_partition_handler add_partition system_bootable is_uefi disk d spec) =
         [\<lparr>kw_partnum = PInt 1, kw_size = PInt (512 * 1024 * 1024), kw_fstype = PStr ''fat32'',
           kw_mountpoint = Some (PStr ''/boot/efi''), kw_flag = Some (PStr ''bios_grub'')\<rparr>,
          \<lparr>kw_partnum = PInt 2, kw_size = PInt (b - sz), kw_fstype = t,
           kw_mountpoint = (if t = PStr ''swap'' then None else Some m), kw_flag = None\<rparr>]"
  proof (intro impI, elim conjE)
    assume ap: "add_partition d uefi_boot_kwargs = (d', Inr (PInt sz))"
      and k: "spec ''bytes'' = Some (PInt b)" "spec ''fstype'' = Some t"
             "t = PStr ''swap'' \<or> spec ''mountpoint'' = Some m"
    from ap assms(4)
    have "add_partition d (if is_uefi then uefi_boot_kwargs else bios_boot_kwargs) =
            (d', Inr (PInt sz))"
      by simp
    from boot_then_requested_calls [of system_bootable d add_partition is_uefi d' sz spec b t m
        disk, OF assms(1-3) this k] assms(4)
    show "res_calls (add_disk_partition_handler add_partition system_bootable is_uefi disk d spec) =
         [\<lparr>kw_partnum = PInt 1, kw_size = PInt (512 * 1024 * 1024), kw_fstype = PStr ''fat32'',
           kw_mountpoint = Some (PStr ''/boot/efi''), kw_flag = Some (PStr ''bios_grub'')\<rparr>,
          \<lparr>kw_partnum = PInt 2, kw_size = PInt (b - sz), kw_fstype = t,
           kw_mountpoint = (if t = PStr ''swap'' then None else Some m), kw_flag = None\<rparr>]"
      by (simp add: uefi_boot_kwargs_def UEFI_GRUB_SIZE_BYTES_def)
  qed
qed

theorem uefi_boot_partition_first_witness:
  "take 1 (res_calls (add_disk_partition_handler add_partition_model False True ''sda''
       (example_disk (100 * 1024 * 1024))
       (example_request (10 * 1024 * 1024 * 1024) ''ext4'' ''/''))) =
     [\<lparr>kw_partnum = PInt 1, kw_size = PInt 536870912, kw_fstype = PStr ''fat32'',
       kw_mountpoint = Some (PStr ''/boot/efi''), kw_flag = Some (PStr ''bios_grub'')\<rparr>] \<and>
   res_calls (add_disk_partition_handler add_partition_model False True ''sda''
       (example_disk (100 * 1024 * 1024 * 1024))
       (example_request (10 * 1024 * 1024 * 1024) ''ext4'' ''/'')) =
     [\<lparr>kw_partnum = PInt 1, kw_size = PInt 536870912, kw_fstype = PStr ''fat32'',
       kw_mountpoint = Some (PStr ''/boot/efi''), kw_flag = Some (PStr ''bios_grub'')\<rparr>,
      \<lparr>kw_partnum = PInt 2, kw_size = PInt 10200547328, kw_fstype = PStr ''ext4'',
       kw_mountpoint = Some (PStr ''/''), kw_flag = None\<rparr>]"
proof -
  let ?small = "example_disk (100 * 1024 * 1024)"
  let ?d = "example_disk (100 * 1024 * 1024 * 1024)"
  let ?spec = "example_request (10 * 1024 * 1024 * 1024) ''ext4'' ''/''"
  have h: "\<not> False" "parttype ?small = ''gpt''" "partitions ?small = []" "True"
          "parttype ?d = ''gpt''" "partitions ?d = []"
    by (simp_all add: example_disk_def)
  have ap: "add_partition_model ?d uefi_boot_kwargs =
              (?d\<lparr>partitions := [uefi_boot_kwargs], freespace := 106837311488\<rparr>,
               Inr (PInt 536870912))"
    by (simp add: example_defs)
  have k: "?spec ''bytes'' = Some (PInt 10737418240)" "?spec ''fstype'' = Some (PStr ''ext4'')"
      "PStr ''ext4'' = PStr ''swap'' \<or> ?spec ''mountpoint'' = Some (PStr ''/'')"
    by (simp_all add: example_request_def)
  have a: "take 1 (res_calls (add_disk_partition_handler add_partition_model False True ''sda''
       ?small ?spec)) =
     [\<lparr>kw_partnum = PInt 1, kw_size = PInt 536870912, kw_fstype = PStr ''fat32'',
       kw_mountpoint = Some (PStr ''/boot/efi''), kw_flag = Some (PStr ''bios_grub'')\<rparr>]"
    using uefi_boot_partition_first [where system_bootable = False and d = ?small
        and is_uefi = True and add_partition = add_partition_model and disk = "''sda''"
        and spec = ?spec, OF h(1,2,3,4), THEN conjunct1]
    by simp
  have b: "res_calls (add_disk_partition_handler add_partition_model False True ''sda''
       ?d ?spec) =
     [\<lparr>kw_partnum = PInt 1, kw_size = PInt 536870912, kw_fstype = PStr ''fat32'',
       kw_mountpoint = Some (PStr ''/boot/efi''), kw_flag = Some (PStr ''bios_grub'')\<rparr>,
      \<lparr>kw_partnum = PInt 2, kw_size = PInt 10200547328, kw_fstype = PStr ''ext4'',
       kw_mountpoint = Some (PStr ''/''), kw_flag = None\<rparr>]"
    using uefi_boot_partition_first [where system_bootable = False and d = ?d
        and is_uefi = True and add_partition = add_partition_model and disk = "''sda''"
        and spec = ?spec and sz = 536870912 and b = 10737418240 and t = "PStr ''ext4''"
        and m = "PStr ''/''"
        and d' = "?d\<lparr>partitions := [uefi_boot_kwargs], freespace := 106837311488\<rparr>",
        OF h(1,5,6,4), THEN conjunct2, THEN mp,
        OF conjI [OF ap conjI [OF k(1) conjI [OF k(2) k(3)]]]]
    by simp
  from a b show ?thesis by (rule conjI)
qed

text \<open>
  Claim C2, as the claim has it, fails on the size: the handler subtracts what
  \<^verbatim>\<open>add_partition\<close> returned, so with a device that reports an offset of 1 MiB the
  second call asks for the requested bytes less 3 MiB, not less 2 MiB.
\<close>

theorem bios_reported_size_counterexample:
  "res_calls (add_disk_partition_handler
       (add_partition_reporting_offset (1024 * 1024)) False False ''sda''
       (example_disk (100 * 1024 * 1024 * 1024))
       (example_request (10 * 1024 * 1024 * 1024) ''ext4'' ''/'')) =
     [\<lparr>kw_partnum = PInt 1, kw_size = PInt 2097152, kw_fstype = PNone,
       kw_mountpoint = None, kw_flag = Some (PStr ''bios_grub'')\<rparr>,
      \<lparr>kw_partnum = PInt 2, kw_size = PInt 10734272512, kw_fstype = PStr ''ext4'',
       kw_mountpoint = Some (PStr ''/''), kw_flag = None\<rparr>] \<and>
   kw_size (res_calls (add_disk_partition_handler
       (add_partition_reporting_offset (1024 * 1024)) False False ''sda''
       (example_disk (100 * 1024 * 1024 * 1024))
       (example_request (10 * 1024 * 1024 * 1024) ''ext4'' ''/'')) ! 1) \<noteq>
     PInt (10 * 1024 * 1024 * 1024 - 2 * 1024 * 1024)"
  by (simp add: handler_defs example_defs add_partition_reporting_offset_def)

text \<open>
  Claim C2, amended.  On a GPT disk without partitions, the system not yet bootable and
  the firmware legacy BIOS, the first call of \<^verbatim>\<open>add_partition\<close> asks for partition 1
  of 2 MiB with no filesystem, no mount point and the flag \<^verbatim>\<open>bios_grub\<close>.  When that
  call returns a size and the request holds \<^verbatim>\<open>bytes\<close>, \<^verbatim>\<open>fstype\<close> and, unless
  swap, \<^verbatim>\<open>mountpoint\<close>, the second call asks for the requested partition as number 2
  with the requested bytes less the size returned: less 2 MiB when
  \<^verbatim>\<open>add_partition\<close> returns the size it was asked to add.
\<close>

theorem bios_boot_partition_first:
  assumes "\<not> system_bootable" "parttype d = ''gpt''" "partitions d = []" "\<not> is_uefi"
  shows
   "take 1 (res_calls
       (add_disk_partition_handler add_partition system_bootable is_uefi disk d spec)) =
      [\<lparr>kw_partnum = PInt 1, kw_size = PInt (2 * 1024 * 1024), kw_fstype = PNone,
        kw_mountpoint = None, kw_flag = Some (PStr ''bios_grub'')\<rparr>] \<and>
    (add_partition d bios_boot_kwargs = (d', Inr (PInt sz)) \<and>
     spec ''bytes'' = Some (PInt b) \<and> spec ''fstype'' = Some t \<and>
     (t = PStr ''swap'' \<or> spec ''mountpoint'' = Some m) \<longrightarrow>
       res_calls (add_disk_partition_handler add_partition system_bootable is_uefi disk d spec) =
         [\<lparr>kw_partnum = PInt 1, kw_size = PInt (2 * 1024 * 1024), kw_fstype = PNone,
           kw_mountpoint = None, kw_flag = Some (PStr ''bios_grub'')\<rparr>,
          \<lparr>kw_partnum = PInt 2, kw_size = PInt (b - sz), kw_fstype = t,
           kw_mountpoint = (if t = PStr ''swap'' then None else Some m), kw_flag = None\<rparr>])"
proof (rule conjI)
  from boot_call_first [OF assms(1-3), of add_partition is_uefi disk spec] assms(4)
  show "take 1 (res_calls
       (add_disk_partition_handler add_partition system_bootable is_uefi disk d spec)) =
      [\<lparr>kw_partnum = PInt 1, kw_size = PInt (2 * 1024 * 1024), kw_fstype = PNone,
        kw_mountpoint = None, kw_flag = Some (PStr ''bios_grub'')\<rparr>]"
    by (simp add: bios_boot_kwargs_def BIOS_GRUB_SIZE_BYTES_def)
next
  show "add_partition d bios_boot_kwargs = (d', Inr (PInt sz)) \<and>
     spec ''bytes'' = Some (PInt b) \<and> spec ''fstype'' = Some t \<and>
     (t = PStr ''swap'' \<or> spec ''mountpoint'' = Some m) \<longrightarrow>
       res_calls (add_disk_partition_handler add_partition system_bootable is_uefi disk d spec) =
         [\<lparr>kw_partnum = PInt 1, kw_size = PInt (2 * 1024 * 1024), kw_fstype = PNone,
           kw_mountpoint = None, kw_flag = Some (PStr ''bios_grub'')\<rparr>,
          \<lparr>kw_partnum = PInt 2, kw_size = PInt (b - sz), kw_fstype = t,
           kw_mountpoint = (if t = PStr ''swap'' then None else Some m), kw_flag = None\<rparr>]"
  proof (intro impI, elim conjE)
    assume ap: "add_partition d bios_boot_kwargs = (d', Inr (PInt sz))"
      and k: "spec ''bytes'' = Some (PInt b)" "spec ''fstype'' = Some t"
             "t = PStr ''swap'' \<or> spec ''mountpoint'' = Some m"
    from ap assms(4)
    have "add_partition d (if is_uefi then uefi_boot_kwargs else bios_boot_kwargs) =
            (d', Inr (PInt sz))"
      by simp
    from boot_then_requested_calls [of system_bootable d add_partition is_uefi d' sz spec b t m
        disk, OF assms(1-3) this k] assms(4)
    show "res_calls (add_disk_partition_handler add_partition system_bootable is_uefi disk d spec) =
         [\<lparr>kw_partnum = PInt 1, kw_size = PInt (2 * 1024 * 1024), kw_fstype = PNone,
           kw_mountpoint = None, kw_flag = Some (PStr ''bios_grub'')\<rparr>,
          \<lparr>kw_partnum = PInt 2, kw_size = PInt (b - sz), kw_fstype = t,
           kw_mountpoint = (if t = PStr ''swap'' then None else Some m), kw_flag = None\<rparr>]"
      by (simp add: bios_boot_kwargs_def BIOS_GRUB_SIZE_BYTES_def)
  qed
qed

theorem bios_boot_partition_first_witness:
  "take 1 (res_calls (add_disk_partition_handler add_partition_model False False ''sda''
       (example_disk (1024 * 1024))
       (example_request (10 * 1024 * 1024 * 1024) ''ext4'' ''/''))) =
     [\<lparr>kw_partnum = PInt 1, kw_size = PInt 2097152, kw_fstype = PNone,
       kw_mountpoint = None, kw_flag = Some (PStr ''bios_grub'')\<rparr>] \<and>
   res_calls (add_disk_partition_handler add_partition_model False False ''sda''
       (example_disk (100 * 1024 * 1024 * 1024))
       (example_request (10 * 1024 * 1024 * 1024) ''ext4'' ''/'')) =
     [\<lparr>kw_partnum = PInt 1, kw_size = PInt 2097152, kw_fstype = PNone,
       kw_mountpoint = None, kw_flag = Some (PStr ''bios_grub'')\<rparr>,
      \<lparr>kw_partnum = PInt 2, kw_size = PInt 10735321088, kw_fstype = PStr ''ext4'',
       kw_mountpoint = Some (PStr ''/''), kw_flag = None\<rparr>]"
proof -
  let ?small = "example_disk (1024 * 1024)"
  let ?d = "example_disk (100 * 1024 * 1024 * 1024)"
  let ?spec = "example_request (10 * 1024 * 1024 * 1024) ''ext4'' ''/''"
  have h: "\<not> False" "parttype ?small = ''gpt''" "partitions ?small = []" "\<not> False"
          "parttype ?d = ''gpt''" "partitions ?d = []"
    by (simp_all add: example_disk_def)
  have ap: "add_partition_model ?d bios_boot_kwargs =
              (?d\<lparr>partitions := [bios_boot_kwargs], freespace := 107372085248\<rparr>,
               Inr (PInt 2097152))"
    by (simp add: example_defs)
  have k: "?spec ''bytes'' = Some (PInt 10737418240)" "?spec ''fstype'' = Some (PStr ''ext4'')"
      "PStr ''ext4'' = PStr ''swap'' \<or> ?spec ''mountpoint'' = Some (PStr ''/'')"
    by (simp_all add: example_request_def)
  have a: "take 1 (res_calls (add_disk_partition_handler add_partition_model False False ''sda''
       ?small ?spec)) =
     [\<lparr>kw_partnum = PInt 1, kw_size = PInt 2097152, kw_fstype = PNone,
       kw_mountpoint = None, kw_flag = Some (PStr ''bios_grub'')\<rparr>]"
    using bios_boot_partition_first [where system_bootable = False and d = ?small
        and is_uefi = False and add_partition = add_partition_model and disk = "''sda''"
        and spec = ?spec, OF h(1,2,3,4), THEN conjunct1]
    by simp
  have b: "res_calls (add_disk_partition_handler add_partition_model False False ''sda''
       ?d ?spec) =
     [\<lparr>kw_partnum = PInt 1, kw_size = PInt 2097152, kw_fstype = PNone,
       kw_mountpoint = None, kw_flag = Some (PStr ''bios_grub'')\<rparr>,
      \<lparr>kw_partnum = PInt 2, kw_size = PInt 10735321088, kw_fstype = PStr ''ext4'',
       kw_mountpoint = Some (PStr ''/''), kw_flag = None\<rparr>]"
    using bios_boot_partition_first [where system_bootable = False and d = ?d
        and is_uefi = False and add_partition = add_partition_model and disk = "''sda''"
        and spec = ?spec and sz = 2097152 and b = 10737418240 and t = "PStr ''ext4''"
        and m = "PStr ''/''"
        and d' = "?d\<lparr>partitions := [bios_boot_kwargs], freespace := 107372085248\<rparr>",
        OF h(1,5,6,4), THEN conjunct2, THEN mp,
        OF conjI [OF ap conjI [OF k(1) conjI [OF k(2) k(3)]]]]
    by simp
  from a b show ?thesis by (rule conjI)
qed

subsection \<open>The caller's request is adjusted in place\<close>



subsection \<open>No boot partition where none is due\<close>

text \<open>
  Claim C5.  When the system is already bootable, or the disk has a partition, or its
  partition table is not \<^verbatim>\<open>gpt\<close>, the handler leaves the request as it was and calls
  \<^verbatim>\<open>add_partition\<close> at most once, without a flag and with the number and size of the
  request; a request that has its keys gives exactly that one call.
\<close>

theorem no_boot_partition_injected:
  assumes "system_bootable \<or> partitions d \<noteq> [] \<or> parttype d \<noteq> ''gpt''"
  shows
   "res_spec (add_disk_partition_handler add_partition system_bootable is_uefi disk d spec) = spec \<and>
    length (res_calls
      (add_disk_partition_handler add_partition system_bootable is_uefi disk d spec)) \<le> 1 \<and>
    (\<forall>kw \<in> set (res_calls
        (add_disk_partition_handler add_partition system_bootable is_uefi disk d spec)).
       kw_flag kw = None \<and> spec ''partnum'' = Some (kw_partnum kw) \<and>
       spec ''bytes'' = Some (kw_size kw)) \<and>
    (spec ''partnum'' = Some n \<and> spec ''bytes'' = Some b \<and> spec ''fstype'' = Some t \<and>
     (t = PStr ''swap'' \<or> spec ''mountpoint'' = Some m) \<longrightarrow>
       res_calls (add_disk_partition_handler add_partition system_bootable is_uefi disk d spec) =
         [\<lparr>kw_partnum = n, kw_size = b, kw_fstype = t,
           kw_mountpoint = (if t = PStr ''swap'' then None else Some m), kw_flag = None\<rparr>])"
proof -
  let ?st0 = "\<lparr>st_disk = d, st_spec = spec, st_calls = []\<rparr>"
  let ?kw = "\<lparr>kw_partnum = n, kw_size = b, kw_fstype = t,
           kw_mountpoint = (if t = PStr ''swap'' then None else Some m), kw_flag = None\<rparr>"
  obtain st2 caught where r: "add_requested_partition add_partition ?st0 = (st2, caught)"
    by (cases "add_requested_partition add_partition ?st0") auto
  have "\<not> (\<not> system_bootable \<and> parttype d = ''gpt'' \<and> partitions d = [])"
    using assms by auto
  then have tb: "try_body add_partition system_bootable is_uefi d spec = (st2, caught)"
    using r by (simp only: try_body_cases if_False)
  note hf = handler_fields(2,3) [OF tb, of disk]
  from add_requested_partition_shape [OF r]
  have sp: "st_spec st2 = spec"
    and cs: "(\<exists>e. requested_kwargs spec = Inl e \<and> caught = Some e \<and> st_calls st2 = []) \<or>
             (\<exists>kw. requested_kwargs spec = Inr kw \<and> st_calls st2 = [kw])"
    by simp_all
  from cs consider e where "requested_kwargs spec = Inl e" "st_calls st2 = []"
    | kw where "requested_kwargs spec = Inr kw" "st_calls st2 = [kw]"
    by auto
  then have main:
    "length (st_calls st2) \<le> 1 \<and>
     (\<forall>kw \<in> set (st_calls st2).
       kw_flag kw = None \<and> spec ''partnum'' = Some (kw_partnum kw) \<and>
       spec ''bytes'' = Some (kw_size kw)) \<and>
     (spec ''partnum'' = Some n \<and> spec ''bytes'' = Some b \<and> spec ''fstype'' = Some t \<and>
      (t = PStr ''swap'' \<or> spec ''mountpoint'' = Some m) \<longrightarrow> st_calls st2 = [?kw])"
  proof cases
    case 1
    have len: "length (st_calls st2) \<le> 1" using 1(2) by simp
    have all: "\<forall>kw \<in> set (st_calls st2).
       kw_flag kw = None \<and> spec ''partnum'' = Some (kw_partnum kw) \<and>
       spec ''bytes'' = Some (kw_size kw)"
      using 1(2) by simp
    have imp: "spec ''partnum'' = Some n \<and> spec ''bytes'' = Some b \<and> spec ''fstype'' = Some t \<and>
      (t = PStr ''swap'' \<or> spec ''mountpoint'' = Some m) \<longrightarrow> st_calls st2 = [?kw]"
    proof (intro impI, elim conjE)
      assume "spec ''partnum'' = Some n" "spec ''bytes'' = Some b" "spec ''fstype'' = Some t"
        "t = PStr ''swap'' \<or> spec ''mountpoint'' = Some m"
      then have "requested_kwargs spec = Inr ?kw"
        by (rule requested_kwargs_present)
      with 1(1) show "st_calls st2 = [?kw]" by simp
    qed
    show ?thesis by (rule conjI [OF len conjI [OF all imp]])
  next
    case 2
    from requested_kwargs_reads [OF 2(1)]
    have rd: "kw_flag kw = None \<and> spec ''partnum'' = Some (kw_partnum kw) \<and>
      spec ''bytes'' = Some (kw_size kw)"
      by simp
    have len: "length (st_calls st2) \<le> 1" using 2(2) by simp
    have all: "\<forall>kw \<in> set (st_calls st2).
       kw_flag kw = None \<and> spec ''partnum'' = Some (kw_partnum kw) \<and>
       spec ''bytes'' = Some (kw_size kw)"
      using rd by (simp add: 2(2))
    have imp: "spec ''partnum'' = Some n \<and> spec ''bytes'' = Some b \<and> spec ''fstype'' = Some t \<and>
      (t = PStr ''swap'' \<or> spec ''mountpoint'' = Some m) \<longrightarrow> st_calls st2 = [?kw]"
    proof (intro impI, elim conjE)
      assume "spec ''partnum'' = Some n" "spec ''bytes'' = Some b" "spec ''fstype'' = Some t"
        "t = PStr ''swap'' \<or> spec ''mountpoint'' = Some m"
      then have "requested_kwargs spec = Inr ?kw"
        by (rule requested_kwargs_present)
      with 2(1) have "kw = ?kw" by simp
      then show "st_calls st2 = [?kw]" by (simp add: 2(2))
    qed
    show ?thesis by (rule conjI [OF len conjI [OF all imp]])
  qed
  show ?thesis unfolding hf by (rule conjI [OF sp main])
qed

theorem no_boot_partition_injected_witness:
  "res_calls (add_disk_partition_handler add_partition_model True True ''sda''
       (example_disk (100 * 1024 * 1024 * 1024))
       (example_request (10 * 1024 * 1024 * 1024) ''ext4'' ''/'')) =
     [\<lparr>kw_partnum = PInt 1, kw_size = PInt (10 * 1024 * 1024 * 1024), kw_fstype = PStr ''ext4'',
       kw_mountpoint = Some (PStr ''/''), kw_flag = None\<rparr>] \<and>
   res_calls (add_disk_partition_handler add_partition_model False True ''sda''
       ((example_disk (100 * 1024 * 1024 * 1024))\<lparr>parttype := ''msdos''\<rparr>)
       (example_request (10 * 1024 * 1024 * 1024) ''ext4'' ''/'')) =
     [\<lparr>kw_partnum = PInt 1, kw_size = PInt (10 * 1024 * 1024 * 1024), kw_fstype = PStr ''ext4'',
       kw_mountpoint = Some (PStr ''/''), kw_flag = None\<rparr>] \<and>
   res_spec (add_disk_partition_handler add_partition_model True True ''sda''
       (example_disk (100 * 1024 * 1024 * 1024))
       (example_request (10 * 1024 * 1024 * 1024) ''ext4'' ''/'')) =
     example_request (10 * 1024 * 1024 * 1024) ''ext4'' ''/''"
  using no_boot_partition_injected [of True "example_disk (100 * 1024 * 1024 * 1024)"
      add_partition_model True "''sda''"
      "example_request (10 * 1024 * 1024 * 1024) ''ext4'' ''/''"
      "PInt 1" "PInt (10 * 1024 * 1024 * 1024)" "PStr ''ext4''" "PStr ''/''"]
    no_boot_partition_injected [of False
      "(example_disk (100 * 1024 * 1024 * 1024))\<lparr>parttype := ''msdos''\<rparr>"
      add_partition_model True "''sda''"
      "example_request (10 * 1024 * 1024 * 1024) ''ext4'' ''/''"
      "PInt 1" "PInt (10 * 1024 * 1024 * 1024)" "PStr ''ext4''" "PStr ''/''"]
  by (simp add: example_disk_def example_request_def)

subsection \<open>Swap partitions\<close>

lemma requested_partition_swap:
  assumes a: "st_spec st ''fstype'' = Some (PStr ''swap'')"
      and b: "add_requested_partition add_partition st = (st', r)"
      and c: "\<forall>kw \<in> set (st_calls st). kw_flag kw \<noteq> None"
  shows "(\<forall>kw \<in> set (st_calls st').
            kw_flag kw = None \<longrightarrow> kw_fstype kw = PStr ''swap'' \<and> kw_mountpoint kw = None) \<and>
         (r = None \<longrightarrow> st_calls st' \<noteq> [] \<and> kw_flag (last (st_calls st')) = None)"
proof -
  from add_requested_partition_shape [OF b]
  consider e where "requested_kwargs (st_spec st) = Inl e" "r = Some e" "st_calls st' = st_calls st"
    | kw where "requested_kwargs (st_spec st) = Inr kw" "st_calls st' = st_calls st @ [kw]"
    by auto
  then show ?thesis
  proof cases
    case 1
    have "\<forall>kw \<in> set (st_calls st').
            kw_flag kw = None \<longrightarrow> kw_fstype kw = PStr ''swap'' \<and> kw_mountpoint kw = None"
      using c by (auto simp add: 1(3))
    moreover have "r \<noteq> None" using 1(2) by simp
    ultimately show ?thesis by auto
  next
    case 2
    from requested_kwargs_reads [OF 2(1)] a
    have k: "kw_fstype kw = PStr ''swap''" "kw_flag kw = None" by simp_all
    with requested_kwargs_reads [OF 2(1)] have m: "kw_mountpoint kw = None" by simp
    have "\<forall>kw \<in> set (st_calls st').
            kw_flag kw = None \<longrightarrow> kw_fstype kw = PStr ''swap'' \<and> kw_mountpoint kw = None"
      using c k m by (auto simp add: 2(2))
    moreover have "st_calls st' \<noteq> [] \<and> kw_flag (last (st_calls st')) = None"
      using k(2) by (simp add: 2(2))
    ultimately show ?thesis by simp
  qed
qed

lemma try_body_swap:
  assumes sw: "spec ''fstype'' = Some (PStr ''swap'')"
      and tb: "try_body add_partition system_bootable is_uefi d spec = (st2, caught)"
  shows "(\<forall>kw \<in> set (st_calls st2).
            kw_flag kw = None \<longrightarrow> kw_fstype kw = PStr ''swap'' \<and> kw_mountpoint kw = None) \<and>
         (caught = None \<longrightarrow> st_calls st2 \<noteq> [] \<and> kw_flag (last (st_calls st2)) = None)"
proof -
  let ?st0 = "\<lparr>st_disk = d, st_spec = spec, st_calls = []\<rparr>"
  show ?thesis
  proof (cases "\<not> system_bootable \<and> parttype d = ''gpt'' \<and> partitions d = []")
    case False
    with tb have r: "add_requested_partition add_partition ?st0 = (st2, caught)"
      by (simp only: try_body_cases if_False)
    have a0: "st_spec ?st0 ''fstype'' = Some (PStr ''swap'')" using sw by simp
    have c0: "\<forall>kw \<in> set (st_calls ?st0). kw_flag kw \<noteq> None" by simp
    from requested_partition_swap [OF a0 r c0] show ?thesis .
  next
    case True
    obtain st1 r1 where b: "add_boot_partition add_partition is_uefi ?st0 = (st1, r1)"
      by (cases "add_boot_partition add_partition is_uefi ?st0") auto
    from add_boot_partition_shape [OF b]
    have calls1: "st_calls st1 = [if is_uefi then uefi_boot_kwargs else bios_boot_kwargs]"
      and ft1: "st_spec st1 ''fstype'' = Some (PStr ''swap'')"
      using sw by simp_all
    have flagged: "\<forall>kw \<in> set (st_calls st1). kw_flag kw \<noteq> None"
      using boot_kwargs_flag [of is_uefi] by (simp add: calls1)
    from tb True b have tb': "(case r1 of Some e \<Rightarrow> (st1, Some e)
         | None \<Rightarrow> add_requested_partition add_partition st1) = (st2, caught)"
      by (simp add: try_body_cases)
    show ?thesis
    proof (cases r1)
      case None
      with tb' have "add_requested_partition add_partition st1 = (st2, caught)" by simp
      from requested_partition_swap [OF ft1 this flagged] show ?thesis .
    next
      case (Some e)
      with tb' have "st2 = st1" "caught = Some e" by simp_all
      with flagged show ?thesis by auto
    qed
  qed
qed

text \<open>
  Claim C6.  For a request whose \<^verbatim>\<open>fstype\<close> is \<^verbatim>\<open>swap\<close>, every call of
  \<^verbatim>\<open>add_partition\<close> that is not the flagged boot partition passes the filesystem
  type \<^verbatim>\<open>swap\<close> and no mount point, whatever the request holds under
  \<^verbatim>\<open>mountpoint\<close>; and when the handler meets no exception, its last call is that one.
\<close>

theorem swap_without_mountpoint:
  assumes "spec ''fstype'' = Some (PStr ''swap'')"
  shows
   "(\<forall>kw \<in> set (res_calls
        (add_disk_partition_handler add_partition system_bootable is_uefi disk d spec)).
       kw_flag kw = None \<longrightarrow> kw_fstype kw = PStr ''swap'' \<and> kw_mountpoint kw = None) \<and>
    (res_caught (add_disk_partition_handler add_partition system_bootable is_uefi disk d spec) = None
       \<longrightarrow> res_calls (add_disk_partition_handler add_partition system_bootable is_uefi disk d spec)
              \<noteq> [] \<and>
            kw_flag (last (res_calls
              (add_disk_partition_handler add_partition system_bootable is_uefi disk d spec))) = None)"
proof -
  obtain st2 caught where
    tb: "try_body add_partition system_bootable is_uefi d spec = (st2, caught)"
    by (cases "try_body add_partition system_bootable is_uefi d spec") auto
  show ?thesis
    unfolding handler_fields(3,4) [OF tb, of disk]
    by (rule try_body_swap [OF assms tb])
qed

theorem swap_without_mountpoint_witness:
  "res_calls (add_disk_partition_handler add_partition_model False False ''sda''
       (example_disk (100 * 1024 * 1024 * 1024))
       (example_request (4 * 1024 * 1024 * 1024) ''swap'' ''/swap'')) =
     [\<lparr>kw_partnum = PInt 1, kw_size = PInt 2097152, kw_fstype = PNone,
       kw_mountpoint = None, kw_flag = Some (PStr ''bios_grub'')\<rparr>,
      \<lparr>kw_partnum = PInt 2, kw_size = PInt 4292870144, kw_fstype = PStr ''swap'',
       kw_mountpoint = None, kw_flag = None\<rparr>] \<and>
   res_caught (add_disk_partition_handler add_partition_model False False ''sda''
       (example_disk (100 * 1024 * 1024 * 1024))
       (example_request (4 * 1024 * 1024 * 1024) ''swap'' ''/swap'')) = None"
  using swap_without_mountpoint [of "example_request (4 * 1024 * 1024 * 1024) ''swap'' ''/swap''"
      add_partition_model False False "''sda''" "example_disk (100 * 1024 * 1024 * 1024)"]
  by (simp add: handler_defs example_defs)

subsection \<open>What a failure leaves behind\<close>










subsection \<open>Requests that do not fit\<close>

lemma add_partition_model_refuses:
  assumes "kw_size kw = PInt n" "n < 0 \<or> freespace d < n"
  shows "add_partition_model d kw = (d, Inl InsufficientSpace)"
  using assms by (simp add: add_partition_model_def)

lemma add_partition_model_accepts:
  assumes "kw_size kw = PInt n" "0 \<le> n" "n \<le> freespace d"
  shows "add_partition_model d kw =
           (d\<lparr>partitions := partitions d @ [kw], freespace := freespace d - n\<rparr>, Inr (PInt n))"
  using assms by (simp add: add_partition_model_def)

lemma add_requested_partition_refused:
  assumes "requested_kwargs (st_spec st) = Inr kw" "kw_size kw = PInt n"
      and "n < 0 \<or> freespace (st_disk st) < n"
  shows "add_requested_partition add_partition_model st =
           (st\<lparr>st_calls := st_calls st @ [kw]\<rparr>, Some InsufficientSpace)"
  using assms(1) add_partition_model_refuses [OF assms(2,3)]
  by (simp add: add_requested_partition_def call_add_partition_def)

lemma boot_kwargs_size:
  "kw_size (if is_uefi then uefi_boot_kwargs else bios_boot_kwargs) =
     PInt (if is_uefi then UEFI_GRUB_SIZE_BYTES else BIOS_GRUB_SIZE_BYTES)"
  by (simp add: uefi_boot_kwargs_def bios_boot_kwargs_def)

lemma boot_size_positive:
  "0 < (if is_uefi then UEFI_GRUB_SIZE_BYTES else BIOS_GRUB_SIZE_BYTES)"
  by (simp add: UEFI_GRUB_SIZE_BYTES_def BIOS_GRUB_SIZE_BYTES_def)

text \<open>
  Claim C4, as the claim has it, fails on the disk state: on a GPT disk with 100 MiB
  free, in BIOS mode, a request for 1 MiB is adjusted to minus 1 MiB and refused, but
  the boot partition added before it stays on the disk.
\<close>

theorem insufficient_space_counterexample:
  "res_caught (add_disk_partition_handler add_partition_model False False ''sda''
       (example_disk (100 * 1024 * 1024))
       (example_request (1024 * 1024) ''ext4'' ''/'')) = Some InsufficientSpace \<and>
   res_calls (add_disk_partition_handler add_partition_model False False ''sda''
       (example_disk (100 * 1024 * 1024))
       (example_request (1024 * 1024) ''ext4'' ''/'')) =
     [\<lparr>kw_partnum = PInt 1, kw_size = PInt 2097152, kw_fstype = PNone,
       kw_mountpoint = None, kw_flag = Some (PStr ''bios_grub'')\<rparr>,
      \<lparr>kw_partnum = PInt 2, kw_size = PInt (- 1048576), kw_fstype = PStr ''ext4'',
       kw_mountpoint = Some (PStr ''/''), kw_flag = None\<rparr>] \<and>
   res_disk (add_disk_partition_handler add_partition_model False False ''sda''
       (example_disk (100 * 1024 * 1024))
       (example_request (1024 * 1024) ''ext4'' ''/'')) =
     \<lparr>parttype = ''gpt'',
      partitions = [\<lparr>kw_partnum = PInt 1, kw_size = PInt 2097152, kw_fstype = PNone,
                      kw_mountpoint = None, kw_flag = Some (PStr ''bios_grub'')\<rparr>],
      freespace = 102760448\<rparr> \<and>
   res_disk (add_disk_partition_handler add_partition_model False False ''sda''
       (example_disk (100 * 1024 * 1024))
       (example_request (1024 * 1024) ''ext4'' ''/'')) \<noteq> example_disk (100 * 1024 * 1024)"
  by (simp add: handler_defs example_defs)

text \<open>
  Claim C4, amended, with \<^verbatim>\<open>add_partition\<close> as the spec describes it.  When the
  size of the request after the adjustment is negative or larger than the free space of
  the disk, the handler ends with the exception \<open>InsufficientSpace\<close>, logs it and emits
  \<^verbatim>\<open>filesystem:add-disk-partition\<close>; the size it passes for the requested partition
  is the adjusted one, not clamped.  The disk is unchanged when no boot partition was
  due or the boot partition itself did not fit; otherwise it holds the boot partition.
\<close>

theorem insufficient_space_refused:
  assumes keys: "spec ''partnum'' = Some n" "spec ''bytes'' = Some (PInt b)"
                "spec ''fstype'' = Some t" "t = PStr ''swap'' \<or> spec ''mountpoint'' = Some m"
      and inj: "inject = (\<not> system_bootable \<and> parttype d = ''gpt'' \<and> partitions d = [])"
      and bsz: "boot_size = (if is_uefi then UEFI_GRUB_SIZE_BYTES else BIOS_GRUB_SIZE_BYTES)"
      and adj: "adjusted = (if inject then b - boot_size else b)"
      and bad: "adjusted < 0 \<or> freespace d < adjusted"
  shows
   "res_caught (add_disk_partition_handler add_partition_model system_bootable is_uefi disk d spec)
      = Some InsufficientSpace \<and>
    res_disk (add_disk_partition_handler add_partition_model system_bootable is_uefi disk d spec)
      = (if inject \<and> boot_size \<le> freespace d
         then d\<lparr>partitions := [if is_uefi then uefi_boot_kwargs else bios_boot_kwargs],
                freespace := freespace d - boot_size\<rparr>
         else d) \<and>
    (\<forall>kw \<in> set (res_calls
        (add_disk_partition_handler add_partition_model system_bootable is_uefi disk d spec)).
       kw_flag kw = None \<longrightarrow> kw_size kw = PInt adjusted) \<and>
    take 2 (res_events
        (add_disk_partition_handler add_partition_model system_bootable is_uefi disk d spec)) =
      [LogException ''Failed to add disk partition'' InsufficientSpace,
       Signal ''filesystem:add-disk-partition'' [disk]]"
proof -
  let ?st0 = "\<lparr>st_disk = d, st_spec = spec, st_calls = []\<rparr>"
  let ?boot = "if is_uefi then uefi_boot_kwargs else bios_boot_kwargs"
  have goal: "\<exists>st2. try_body add_partition_model system_bootable is_uefi d spec =
                 (st2, Some InsufficientSpace) \<and>
               st_disk st2 = (if inject \<and> boot_size \<le> freespace d
                   then d\<lparr>partitions := [?boot], freespace := freespace d - boot_size\<rparr>
                   else d) \<and>
               (\<forall>kw \<in> set (st_calls st2). kw_flag kw = None \<longrightarrow> kw_size kw = PInt adjusted)"
  proof (cases inject)
    case False
    let ?kw = "\<lparr>kw_partnum = n, kw_size = PInt b, kw_fstype = t,
                kw_mountpoint = (if t = PStr ''swap'' then None else Some m), kw_flag = None\<rparr>"
    have req: "requested_kwargs (st_spec ?st0) = Inr ?kw"
      using requested_kwargs_present [OF keys] by simp
    have "b < 0 \<or> freespace (st_disk ?st0) < b" using bad adj False by simp
    from add_requested_partition_refused [OF req _ this]
    have "add_requested_partition add_partition_model ?st0 =
            (?st0\<lparr>st_calls := [?kw]\<rparr>, Some InsufficientSpace)"
      by simp
    moreover have "try_body add_partition_model system_bootable is_uefi d spec =
            add_requested_partition add_partition_model ?st0"
    proof -
      from False inj have "\<not> (\<not> system_bootable \<and> parttype d = ''gpt'' \<and> partitions d = [])"
        by simp
      then show ?thesis by (simp only: try_body_cases if_False)
    qed
    ultimately have "try_body add_partition_model system_bootable is_uefi d spec =
            (?st0\<lparr>st_calls := [?kw]\<rparr>, Some InsufficientSpace)"
      by simp
    moreover have "adjusted = b" using adj False by simp
    ultimately show ?thesis using False by simp
  next
    case True
    then have cond: "\<not> system_bootable \<and> parttype d = ''gpt'' \<and> partitions d = []"
      using inj by simp
    show ?thesis
    proof (cases "boot_size \<le> freespace d")
      case False
      have "add_partition_model d ?boot = (d, Inl InsufficientSpace)"
        using False bsz by (intro add_partition_model_refuses [OF boot_kwargs_size]) simp
      then have "add_boot_partition add_partition_model is_uefi ?st0 =
                   (?st0\<lparr>st_calls := [?boot]\<rparr>, Some InsufficientSpace)"
        by (simp add: add_boot_partition_def call_add_partition_def)
      then have "try_body add_partition_model system_bootable is_uefi d spec =
                   (?st0\<lparr>st_calls := [?boot]\<rparr>, Some InsufficientSpace)"
        using cond by (simp add: try_body_cases)
      then show ?thesis using False boot_kwargs_flag [of is_uefi] by simp
    next
      case fits: True
      let ?d1 = "d\<lparr>partitions := [?boot], freespace := freespace d - boot_size\<rparr>"
      let ?spec1 = "spec(''bytes'' \<mapsto> PInt (b - boot_size), ''partnum'' \<mapsto> PInt 2)"
      let ?st1 = "\<lparr>st_disk = ?d1, st_spec = ?spec1, st_calls = [?boot]\<rparr>"
      let ?kw = "\<lparr>kw_partnum = PInt 2, kw_size = PInt (b - boot_size), kw_fstype = t,
                kw_mountpoint = (if t = PStr ''swap'' then None else Some m), kw_flag = None\<rparr>"
      have "add_partition_model d ?boot = (?d1, Inr (PInt boot_size))"
        using add_partition_model_accepts [OF boot_kwargs_size, of is_uefi d]
          boot_size_positive [of is_uefi] fits bsz cond
        by simp
      then have "add_partition_model (st_disk ?st0) ?boot = (?d1, Inr (PInt boot_size))"
        by simp
      with add_boot_partition_returns [of add_partition_model ?st0 is_uefi ?d1 boot_size b]
        keys(2)
      have boot: "add_boot_partition add_partition_model is_uefi ?st0 = (?st1, None)"
        by simp
      have req: "requested_kwargs (st_spec ?st1) = Inr ?kw"
        using keys(3,4) by (intro requested_kwargs_present) simp_all
      have "b - boot_size < 0 \<or> freespace (st_disk ?st1) < b - boot_size"
        using bad adj True boot_size_positive [of is_uefi] bsz by auto
      from add_requested_partition_refused [OF req _ this]
      have "add_requested_partition add_partition_model ?st1 =
              (?st1\<lparr>st_calls := [?boot, ?kw]\<rparr>, Some InsufficientSpace)"
        by simp
      then have "try_body add_partition_model system_bootable is_uefi d spec =
              (?st1\<lparr>st_calls := [?boot, ?kw]\<rparr>, Some InsufficientSpace)"
        using cond boot by (simp add: try_body_cases)
      moreover have "adjusted = b - boot_size" using adj True by simp
      ultimately show ?thesis using True fits boot_kwargs_flag [of is_uefi] by simp
    qed
  qed
  then obtain st2 where
    tb: "try_body add_partition_model system_bootable is_uefi d spec =
           (st2, Some InsufficientSpace)"
    and dk: "st_disk st2 = (if inject \<and> boot_size \<le> freespace d
                   then d\<lparr>partitions := [?boot], freespace := freespace d - boot_size\<rparr>
                   else d)"
    and cl: "\<forall>kw \<in> set (st_calls st2). kw_flag kw = None \<longrightarrow> kw_size kw = PInt adjusted"
    by blast
  show ?thesis
    unfolding handler_fields [OF tb, of disk]
    using dk cl by simp
qed

theorem insufficient_space_refused_witness:
  "res_caught (add_disk_partition_handler add_partition_model False True ''sda''
       (example_disk (1024 * 1024 * 1024))
       (example_request (256 * 1024 * 1024) ''ext4'' ''/'')) = Some InsufficientSpace \<and>
   res_disk (add_disk_partition_handler add_partition_model False True ''sda''
       (example_disk (1024 * 1024 * 1024))
       (example_request (256 * 1024 * 1024) ''ext4'' ''/'')) =
     \<lparr>parttype = ''gpt'', partitions = [uefi_boot_kwargs], freespace = 536870912\<rparr> \<and>
   res_caught (add_disk_partition_handler add_partition_model True True ''sda''
       (example_disk (1024 * 1024 * 1024))
       (example_request (2048 * 1024 * 1024) ''ext4'' ''/'')) = Some InsufficientSpace \<and>
   res_disk (add_disk_partition_handler add_partition_model True True ''sda''
       (example_disk (1024 * 1024 * 1024))
       (example_request (2048 * 1024 * 1024) ''ext4'' ''/'')) =
     example_disk (1024 * 1024 * 1024)"
proof -
  let ?d = "example_disk (1024 * 1024 * 1024)"
  let ?small = "example_request (256 * 1024 * 1024) ''ext4'' ''/''"
  let ?large = "example_request (2048 * 1024 * 1024) ''ext4'' ''/''"
  have small: "?small ''partnum'' = Some (PInt 1)"
      "?small ''bytes'' = Some (PInt (256 * 1024 * 1024))"
      "?small ''fstype'' = Some (PStr ''ext4'')"
      "PStr ''ext4'' = PStr ''swap'' \<or> ?small ''mountpoint'' = Some (PStr ''/'')"
    by (simp_all add: example_request_def)
  have large: "?large ''partnum'' = Some (PInt 1)"
      "?large ''bytes'' = Some (PInt (2048 * 1024 * 1024))"
      "?large ''fstype'' = Some (PStr ''ext4'')"
      "PStr ''ext4'' = PStr ''swap'' \<or> ?large ''mountpoint'' = Some (PStr ''/'')"
    by (simp_all add: example_request_def)
  have inj1: "True = (\<not> False \<and> parttype ?d = ''gpt'' \<and> partitions ?d = [])"
    by (simp add: example_disk_def)
  have inj2: "False = (\<not> True \<and> parttype ?d = ''gpt'' \<and> partitions ?d = [])"
    by simp
  have bsz: "(536870912 :: int) = (if True then UEFI_GRUB_SIZE_BYTES else BIOS_GRUB_SIZE_BYTES)"
    by (simp add: UEFI_GRUB_SIZE_BYTES_def)
  have adj1: "(- 268435456 :: int) = (if True then 256 * 1024 * 1024 - 536870912 else 256 * 1024 * 1024)"
    by simp
  have adj2: "(2147483648 :: int) = (if False then 2048 * 1024 * 1024 - 536870912 else 2048 * 1024 * 1024)"
    by simp
  have bad1: "(- 268435456 :: int) < 0 \<or> freespace ?d < - 268435456"
    by simp
  have bad2: "(2147483648 :: int) < 0 \<or> freespace ?d < 2147483648"
    by (simp add: example_disk_def)
  note w1 = insufficient_space_refused [OF small inj1 bsz adj1 bad1, of "''sda''"]
  note w2 = insufficient_space_refused [OF large inj2 bsz adj2 bad2, of "''sda''"]
  have a: "res_caught (add_disk_partition_handler add_partition_model False True ''sda'' ?d ?small)
             = Some InsufficientSpace"
    using w1 [THEN conjunct1] .
  have b: "res_disk (add_disk_partition_handler add_partition_model False True ''sda'' ?d ?small)
             = \<lparr>parttype = ''gpt'', partitions = [uefi_boot_kwargs], freespace = 536870912\<rparr>"
    using w1 [THEN conjunct2, THEN conjunct1] by (simp add: example_disk_def)
  have c: "res_caught (add_disk_partition_handler add_partition_model True True ''sda'' ?d ?large)
             = Some InsufficientSpace"
    using w2 [THEN conjunct1] .
  have d: "res_disk (add_disk_partition_handler add_partition_model True True ''sda'' ?d ?large)
             = ?d"
    using w2 [THEN conjunct2, THEN conjunct1] by simp
  from a b c d show ?thesis by (intro conjI)
qed

section \<open>Properties of persisting the action lists\<close>

text \<open>
  Claim C8.  For an action list, when the write of the storage actions is denied the
  handler logs the exception, emits \<^verbatim>\<open>filesystem:error\<close> naming
  \<^verbatim>\<open>curtin_write_storage_actions\<close> and returns, without attempting the second write;
  when the write of the preserved actions is denied it logs, emits
  \<^verbatim>\<open>filesystem:error\<close> naming \<^verbatim>\<open>curtin_write_preserved_actions\<close> and returns.  In
  neither case does it emit \<^verbatim>\<open>identity:show\<close>, and no exception leaves the handler.
\<close>

theorem permission_denied_signalled:
  "(write_storage (Some as) = Some PermissionError \<longrightarrow>
      filesystem_handler write_storage write_preserved preserve reset (Some as) =
        ([LogInfo ''Rendering curtin config from user choices'',
          Call ''curtin_write_storage_actions'',
          LogException ''Failed to write storage actions'' PermissionError,
          Signal ''filesystem:error'' [''curtin_write_storage_actions'']], Inr ())) \<and>
   (write_storage (Some as) = None \<and> map_raising preserve as = Inr ps \<and>
    write_preserved ps = Some PermissionError \<longrightarrow>
      filesystem_handler write_storage write_preserved preserve reset (Some as) =
        ([LogInfo ''Rendering curtin config from user choices'',
          Call ''curtin_write_storage_actions'',
          LogInfo ''Rendering preserved config for post install'',
          Call ''curtin_write_preserved_actions'',
          LogException ''Failed to write preserved actions'' PermissionError,
          Signal ''filesystem:error'' [''curtin_write_preserved_actions'']], Inr ()))"
  by (simp add: filesystem_handler_def)

theorem permission_denied_signalled_witness:
  "filesystem_handler (\<lambda>a. Some PermissionError) (\<lambda>p. None) (\<lambda>a. Inr (a, True)) False
       (Some [''partition-0'', ''format-0'']) =
     ([LogInfo ''Rendering curtin config from user choices'',
       Call ''curtin_write_storage_actions'',
       LogException ''Failed to write storage actions'' PermissionError,
       Signal ''filesystem:error'' [''curtin_write_storage_actions'']], Inr ()) \<and>
   filesystem_handler (\<lambda>a. None) (\<lambda>p. Some PermissionError) (\<lambda>a. Inr (a, True)) False
       (Some [''partition-0'', ''format-0'']) =
     ([LogInfo ''Rendering curtin config from user choices'',
       Call ''curtin_write_storage_actions'',
       LogInfo ''Rendering preserved config for post install'',
       Call ''curtin_write_preserved_actions'',
       LogException ''Failed to write preserved actions'' PermissionError,
       Signal ''filesystem:error'' [''curtin_write_preserved_actions'']], Inr ())"
  using permission_denied_signalled [where write_storage = "\<lambda>a. Some PermissionError"
      and write_preserved = "\<lambda>p. None" and preserve = "\<lambda>a. Inr (a, True)" and reset = False
      and as = "[''partition-0'', ''format-0'']"
      and ps = "[(''partition-0'', True), (''format-0'', True)]"]
    permission_denied_signalled [where write_storage = "\<lambda>a. None"
      and write_preserved = "\<lambda>p. Some PermissionError" and preserve = "\<lambda>a. Inr (a, True)"
      and reset = False and as = "[''partition-0'', ''format-0'']"
      and ps = "[(''partition-0'', True), (''format-0'', True)]"]
  by simp

end
